theory Spec2Isabelle
  imports
    Main
    "HOL-Library.Char_ord"
    "HOL-Library.List_Lexorder"
    "HOL-Library.Multiset"
    "HOL-Library.Sublist"
begin

section \<open>Errors of the scaffold package\<close>

text \<open>
  The error values the scaffold package produces or passes on. \<open>NoModuleURLPassed\<close> and
  \<open>failedToParseURLError\<close> are the two error types the package declares; \<open>External\<close> is
  an error handed back by a collaborator (identified by its message); \<open>ErrorsNew\<close> is
  \<^verbatim>\<open>errors.New(err)\<close>, the wrapper every fatal return goes through.
\<close>

datatype error =
    NoModuleURLPassed
  | failedToParseURLError
  | External string
  | ErrorsNew error

section \<open>Variable classification (parseVariables)\<close>

text \<open>\<^verbatim>\<open>config.ParsedVariable\<close>, with the fields the default template reads.\<close>

record ParsedVariable =
  Name :: string
  Description :: string
  Type :: string
  DefaultValue :: string
  DefaultValuePlaceholder :: string

text \<open>
  The loop of \<^verbatim>\<open>parseVariables\<close>: it walks \<^verbatim>\<open>inputs\<close> once, appending each declaration
  to \<^verbatim>\<open>requiredVariables\<close> when its \<^verbatim>\<open>DefaultValue\<close> is the empty string and to
  \<^verbatim>\<open>optionalVariables\<close> otherwise. The two accumulators start as nil slices. The
  elements are pointers in the source; the loop only reads the field through them.
\<close>

fun classify_loop ::
  "ParsedVariable list \<Rightarrow> ParsedVariable list \<Rightarrow> ParsedVariable list
    \<Rightarrow> ParsedVariable list \<times> ParsedVariable list" where
  "classify_loop [] requiredVariables optionalVariables = (requiredVariables, optionalVariables)"
| "classify_loop (v # inputs) requiredVariables optionalVariables =
     (if DefaultValue v = []
      then classify_loop inputs (requiredVariables @ [v]) optionalVariables
      else classify_loop inputs requiredVariables (optionalVariables @ [v]))"

text \<open>
  \<^verbatim>\<open>parseVariables(opts, moduleDir)\<close>. The declaration parser \<^verbatim>\<open>config.ParseVariables\<close> is a
  collaborator, taken as the parameter \<open>configParseVariables\<close>; its failure is the only error
  path of the function.
\<close>

definition parseVariables ::
  "(string \<Rightarrow> error + ParsedVariable list) \<Rightarrow> string
    \<Rightarrow> error + (ParsedVariable list \<times> ParsedVariable list)" where
  "parseVariables configParseVariables moduleDir =
     (case configParseVariables moduleDir of
        Inl err \<Rightarrow> Inl (ErrorsNew err)
      | Inr inputs \<Rightarrow> Inr (classify_loop inputs [] []))"

section \<open>Query strings of net/url\<close>

text \<open>
  The scaffold package reads and writes the \<^verbatim>\<open>ref\<close> parameter through the standard
  library: \<^verbatim>\<open>URL.Query()\<close>, \<^verbatim>\<open>Values.Get\<close>, \<^verbatim>\<open>Values.Set\<close>, \<^verbatim>\<open>Values.Add\<close> and
  \<^verbatim>\<open>Values.Encode()\<close>. They are modelled on bytes (\<open>char\<close> is a byte), as the library
  works.
\<close>

definition isAlnum :: "char \<Rightarrow> bool" where
  "isAlnum c =
     (let n = (of_char c :: nat)
      in (97 \<le> n \<and> n \<le> 122) \<or> (65 \<le> n \<and> n \<le> 90) \<or> (48 \<le> n \<and> n \<le> 57))"

text \<open>
  \<^verbatim>\<open>shouldEscape(c, encodeQueryComponent)\<close>: only letters, digits and \<^verbatim>\<open>- _ . ~\<close> are
  written as they are.
\<close>

definition shouldEscape :: "char \<Rightarrow> bool" where
  "shouldEscape c =
     (\<not> (isAlnum c \<or> c = CHR ''-'' \<or> c = CHR ''_'' \<or> c = CHR ''.'' \<or> c = CHR ''~''))"

definition upperhex :: string where
  "upperhex = ''0123456789ABCDEF''"

definition ishex :: "char \<Rightarrow> bool" where
  "ishex c =
     (let n = (of_char c :: nat)
      in (48 \<le> n \<and> n \<le> 57) \<or> (97 \<le> n \<and> n \<le> 102) \<or> (65 \<le> n \<and> n \<le> 70))"

definition unhex :: "char \<Rightarrow> nat" where
  "unhex c =
     (let n = (of_char c :: nat)
      in if 48 \<le> n \<and> n \<le> 57 then n - 48
         else if 97 \<le> n \<and> n \<le> 102 then n - 97 + 10
         else if 65 \<le> n \<and> n \<le> 70 then n - 65 + 10
         else 0)"

text \<open>\<^verbatim>\<open>QueryEscape\<close>: a space becomes \<^verbatim>\<open>+\<close>, any other escaped byte \<^verbatim>\<open>%XX\<close>.\<close>

fun QueryEscape :: "string \<Rightarrow> string" where
  "QueryEscape [] = []"
| "QueryEscape (c # s) =
     (if shouldEscape c then
        (if c = CHR '' '' then CHR ''+'' # QueryEscape s
         else CHR ''%'' # upperhex ! (of_char c div 16) # upperhex ! (of_char c mod 16)
                # QueryEscape s)
      else c # QueryEscape s)"

text \<open>
  \<^verbatim>\<open>QueryUnescape\<close>: \<open>None\<close> is the library's \<^verbatim>\<open>EscapeError\<close>, raised by a \<^verbatim>\<open>%\<close> that two
  hexadecimal digits do not follow.
\<close>

fun QueryUnescape :: "string \<Rightarrow> string option" where
  "QueryUnescape [] = Some []"
| "QueryUnescape (c # s) =
     (if c = CHR ''%'' then
        (case s of
           a # b # t \<Rightarrow>
             (if ishex a \<and> ishex b
              then map_option ((#) (char_of (unhex a * 16 + unhex b))) (QueryUnescape t)
              else None)
         | _ \<Rightarrow> None)
      else if c = CHR ''+'' then map_option ((#) CHR '' '') (QueryUnescape s)
      else map_option ((#) c) (QueryUnescape s))"

text \<open>
  \<^verbatim>\<open>url.Values\<close> is \<^verbatim>\<open>map[string][]string\<close>. It is kept as the list of its (key, value)
  pairs: the values of a key are the pairs with that key, in their order. The map has no
  order between different keys, and no operation used here observes one
  (\<^verbatim>\<open>Encode\<close> sorts by key).
\<close>

type_synonym Values = "(string \<times> string) list"

text \<open>\<^verbatim>\<open>strings.Cut(s, sep)\<close> for a one-byte separator: the text before and after it.\<close>

definition Cut :: "string \<Rightarrow> char \<Rightarrow> string \<times> string" where
  "Cut s sep = (takeWhile (\<lambda>c. c \<noteq> sep) s, drop 1 (dropWhile (\<lambda>c. c \<noteq> sep) s))"

text \<open>
  One round of the loop of \<^verbatim>\<open>parseQuery\<close> on the segment \<open>key\<close>: a segment with a
  semicolon, an empty segment and a segment that does not unescape are skipped.
\<close>

definition parsePair :: "string \<Rightarrow> Values" where
  "parsePair key =
     (if CHR '';'' \<in> set key then []
      else if key = [] then []
      else (case Cut key CHR ''='' of
              (k, v) \<Rightarrow>
                (case QueryUnescape k of
                   None \<Rightarrow> []
                 | Some k' \<Rightarrow>
                     (case QueryUnescape v of
                        None \<Rightarrow> []
                      | Some v' \<Rightarrow> [(k', v')]))))"

text \<open>
  \<^verbatim>\<open>for query != "" { key, query, _ = strings.Cut(query, "&"); ... }\<close>: each accepted
  pair is appended to the values of its key.
\<close>

function parseQuery :: "string \<Rightarrow> Values" where
  "parseQuery [] = []"
| "parseQuery (c # q) =
     parsePair (fst (Cut (c # q) CHR ''&'')) @ parseQuery (snd (Cut (c # q) CHR ''&''))"
  by pat_completeness auto
termination
proof (relation "measure length")
  show "wf (measure length)" by simp
next
  fix c :: char and q :: string
  have "length (dropWhile (\<lambda>x. x \<noteq> CHR ''&'') (c # q)) \<le> length (c # q)"
    by (rule length_dropWhile_le)
  then show "(snd (Cut (c # q) CHR ''&''), c # q) \<in> measure length"
    by (cases "dropWhile (\<lambda>x. x \<noteq> CHR ''&'') (c # q)") (auto simp: Cut_def)
qed

text \<open>\<^verbatim>\<open>Values.Get\<close>: the first value of the key, or the empty string.\<close>

definition Values_Get :: "Values \<Rightarrow> string \<Rightarrow> string" where
  "Values_Get v key = (case filter (\<lambda>p. fst p = key) v of [] \<Rightarrow> [] | p # _ \<Rightarrow> snd p)"

text \<open>\<^verbatim>\<open>Values.Set\<close>: the key gets the one value, replacing what it had.\<close>

definition Values_Set :: "Values \<Rightarrow> string \<Rightarrow> string \<Rightarrow> Values" where
  "Values_Set v key val = filter (\<lambda>p. fst p \<noteq> key) v @ [(key, val)]"

text \<open>\<^verbatim>\<open>Values.Add\<close>: the value is appended to the values of the key.\<close>

definition Values_Add :: "Values \<Rightarrow> string \<Rightarrow> string \<Rightarrow> Values" where
  "Values_Add v key val = v @ [(key, val)]"

definition encodePair :: "string \<times> string \<Rightarrow> string" where
  "encodePair p = QueryEscape (fst p) @ CHR ''='' # QueryEscape (snd p)"

fun joinAmp :: "string list \<Rightarrow> string" where
  "joinAmp [] = []"
| "joinAmp [s] = s"
| "joinAmp (s # t) = s @ CHR ''&'' # joinAmp t"

text \<open>
  \<^verbatim>\<open>Values.Encode()\<close>: keys in sorted order (bytewise), the values of a key in their
  order, written \<^verbatim>\<open>key=value\<close> and joined by \<^verbatim>\<open>&\<close>.
\<close>

definition Values_Encode :: "Values \<Rightarrow> string" where
  "Values_Encode v = joinAmp (map encodePair (sort_key fst v))"

text \<open>The values a key carries, in order.\<close>

definition Values_of :: "Values \<Rightarrow> string \<Rightarrow> string list" where
  "Values_of v key = map snd (filter (\<lambda>p. fst p = key) v)"

record Userinfo =
  username :: string
  password :: string
  passwordSet :: bool

text \<open>\<^verbatim>\<open>url.URL\<close>, field by field.\<close>

record URL =
  Scheme :: string
  Opaque :: string
  User :: "Userinfo option"
  Host :: string
  Path :: string
  RawPath :: string
  OmitHost :: bool
  ForceQuery :: bool
  RawQuery :: string
  Fragment :: string
  RawFragment :: string

text \<open>\<^verbatim>\<open>URL.Query()\<close> parses \<^verbatim>\<open>RawQuery\<close> and drops the parse error.\<close>

definition Query :: "URL \<Rightarrow> Values" where
  "Query u = parseQuery (RawQuery u)"

text \<open>
  The functions below receive a \<^verbatim>\<open>*url.URL\<close> and assign to its \<^verbatim>\<open>RawQuery\<close> through the
  pointer. The store maps an address to the URL value it holds; a function that writes
  through a pointer returns the store it leaves.
\<close>

type_synonym addr = nat
type_synonym heap = "addr \<Rightarrow> URL"

section \<open>Variables and constants of the scaffold package\<close>

text \<open>
  The variable map is \<^verbatim>\<open>map[string]interface{}\<close>. A value is a Go string, or any other
  value, carried by the text \<^verbatim>\<open>fmt.Sprintf("%s", value)\<close> renders for it.
\<close>

datatype gvalue = GString string | GOther string

fun sprintf_s :: "gvalue \<Rightarrow> string" where
  "sprintf_s (GString s) = s"
| "sprintf_s (GOther rendering) = rendering"

type_synonym vars = "string \<rightharpoonup> gvalue"

definition sourceURLTypeHTTPS :: string where "sourceURLTypeHTTPS = ''git-https''"
definition sourceURLTypeGit :: string where "sourceURLTypeGit = ''git-ssh''"
definition sourceGitSSHUser :: string where "sourceGitSSHUser = ''git''"
definition sourceURLTypeVar :: string where "sourceURLTypeVar = ''SourceUrlType''"
definition sourceGitSSHUserVar :: string where "sourceGitSSHUserVar = ''SourceGitSshUser''"
definition refVar :: string where "refVar = ''Ref''"
definition refParam :: string where "refParam = ''ref''"

section \<open>parseURL: the module URL pattern\<close>

record parsedURL =
  scheme :: string
  host :: string
  path :: string

text \<open>
  \<^verbatim>\<open>moduleURLPattern = (?:git|hg|s3|gcs)::([^:]+)://([^/]+)(/.*)\<close>.
  \<open>matchRest\<close> matches the three groups at the start of a string. Each group is forced:
  \<^verbatim>\<open>[^:]+\<close> must stop at the first colon, since a colon has to follow it, \<^verbatim>\<open>[^/]+\<close> at the
  first slash, and \<^verbatim>\<open>.*\<close> runs to the end of the line (\<^verbatim>\<open>.\<close> matches no newline).
\<close>

definition matchRest :: "string \<Rightarrow> parsedURL option" where
  "matchRest s =
     (let g1 = takeWhile (\<lambda>c. c \<noteq> CHR '':'') s;
          r1 = dropWhile (\<lambda>c. c \<noteq> CHR '':'') s
      in if g1 = [] \<or> \<not> prefix ''://'' r1 then None
         else
           (let r2 = drop 3 r1;
                g2 = takeWhile (\<lambda>c. c \<noteq> CHR ''/'') r2;
                r3 = dropWhile (\<lambda>c. c \<noteq> CHR ''/'') r2
            in if g2 = [] \<or> r3 = [] then None
               else Some \<lparr>scheme = g1, host = g2,
                          path = takeWhile (\<lambda>c. c \<noteq> CHR 0x0A) r3\<rparr>))"

text \<open>The alternatives of the non-capturing group, tried in the order written.\<close>

fun matchAlternatives :: "string list \<Rightarrow> string \<Rightarrow> parsedURL option" where
  "matchAlternatives [] s = None"
| "matchAlternatives (a # alts) s =
     (if prefix (a @ ''::'') s
      then (case matchRest (drop (length a + 2) s) of
              Some p \<Rightarrow> Some p
            | None \<Rightarrow> matchAlternatives alts s)
      else matchAlternatives alts s)"

text \<open>
  \<^verbatim>\<open>moduleURLRegex.FindStringSubmatch\<close>: the pattern is not anchored, the leftmost match
  wins. A match always has the full text and the three groups (four parts), so
  \<^verbatim>\<open>len(matches) != moduleURLParts\<close> holds exactly when there is no match.
\<close>

fun FindStringSubmatch :: "string \<Rightarrow> parsedURL option" where
  "FindStringSubmatch [] = None"
| "FindStringSubmatch (c # s) =
     (case matchAlternatives [''git'', ''hg'', ''s3'', ''gcs''] (c # s) of
        Some p \<Rightarrow> Some p
      | None \<Rightarrow> FindStringSubmatch s)"

definition parseURL :: "string \<Rightarrow> error + parsedURL" where
  "parseURL moduleURL =
     (case FindStringSubmatch moduleURL of
        None \<Rightarrow> Inl failedToParseURLError
      | Some matches \<Rightarrow> Inr matches)"

text \<open>\<^verbatim>\<open>strings.TrimPrefix\<close>.\<close>

definition TrimPrefix :: "string \<Rightarrow> string \<Rightarrow> string" where
  "TrimPrefix s pre = (if prefix pre s then drop (length pre) s else s)"

section \<open>rewriteModuleURL, addRefToModuleURL, rewriteTemplateURL\<close>

text \<open>
  \<^verbatim>\<open>rewriteModuleURL(opts, vars, moduleURL)\<close>. \<^verbatim>\<open>terraform.ToSourceURL\<close> is a collaborator
  (the parameter \<open>toSourceURL\<close>, applied to a source string and a working directory);
  \<open>workingDir\<close> is \<^verbatim>\<open>opts.WorkingDir\<close>.
\<close>

definition rewriteModuleURL ::
  "(string \<Rightarrow> string \<Rightarrow> error + URL) \<Rightarrow> string \<Rightarrow> vars \<Rightarrow> string \<Rightarrow> error + URL" where
  "rewriteModuleURL toSourceURL workingDir vars moduleURL =
     (let updatedModuleURL = moduleURL;
          sourceURLType =
            (case vars sourceURLTypeVar of
               Some v \<Rightarrow> sprintf_s v
             | None \<Rightarrow> sourceURLTypeHTTPS)
      in case parseURL moduleURL of
           Inl err \<Rightarrow>
             (case toSourceURL updatedModuleURL workingDir of
                Inl err \<Rightarrow> Inl (ErrorsNew err)
              | Inr parsedModuleURL \<Rightarrow> Inr parsedModuleURL)
         | Inr parsedValue \<Rightarrow>
             (let updatedModuleURL =
                    (if scheme parsedValue = ''https'' \<and> sourceURLType = sourceURLTypeGit
                     then (let gitUser =
                                 (case vars sourceGitSSHUserVar of
                                    Some v \<Rightarrow> sprintf_s v
                                  | None \<Rightarrow> sourceGitSSHUser);
                               path = TrimPrefix (path parsedValue) ''/''
                           in gitUser @ ''@'' @ host parsedValue @ '':'' @ path)
                     else updatedModuleURL)
              in case toSourceURL updatedModuleURL workingDir of
                   Inl err \<Rightarrow> Inl (ErrorsNew err)
                 | Inr parsedModuleURL \<Rightarrow> Inr parsedModuleURL))"

text \<open>
  \<^verbatim>\<open>addRefToModuleURL(ctx, opts, parsedModuleURL, vars)\<close>. The collaborators are
  \<^verbatim>\<open>terraform.SplitSourceURL\<close>, of which only the root URL and the error are used, and
  \<^verbatim>\<open>shell.GitLastReleaseTag\<close>, which returns a tag and an error; both read the URL they
  are given and write nothing through it. \<open>h\<close> is the store,
  \<open>parsedModuleURL\<close> the pointer; the result is the returned pointer (or the error, with a
  nil pointer) and the store after the call.
\<close>

definition addRefToModuleURL ::
  "(URL \<Rightarrow> error + URL) \<Rightarrow> (URL \<Rightarrow> string \<times> error option)
    \<Rightarrow> heap \<Rightarrow> addr \<Rightarrow> vars \<Rightarrow> (error + addr) \<times> heap" where
  "addRefToModuleURL splitSourceURL gitLastReleaseTag h parsedModuleURL vars =
     (let moduleURL = parsedModuleURL;
          params = Query (h moduleURL);
          (params, h) =
            (case vars refVar of
               Some refReplacement \<Rightarrow>
                 (let params = Values_Set params refParam (sprintf_s refReplacement)
                  in (params, h(moduleURL := (h moduleURL)\<lparr>RawQuery := Values_Encode params\<rparr>)))
             | None \<Rightarrow> (params, h));
          ref = Values_Get params refParam
      in if ref = [] then
           (case splitSourceURL (h moduleURL) of
              Inl err \<Rightarrow> (Inl (ErrorsNew err), h)
            | Inr rootSourceURL \<Rightarrow>
                (case gitLastReleaseTag rootSourceURL of
                   (tag, err) \<Rightarrow>
                     if err \<noteq> None \<or> tag = [] then (Inr moduleURL, h)
                     else (let params = Values_Add params refParam tag
                           in (Inr moduleURL,
                               h(moduleURL :=
                                   (h moduleURL)\<lparr>RawQuery := Values_Encode params\<rparr>)))))
         else (Inr moduleURL, h))"

text \<open>\<^verbatim>\<open>rewriteTemplateURL(ctx, opts, parsedTemplateURL)\<close>: it takes no variable map.\<close>

definition rewriteTemplateURL ::
  "(URL \<Rightarrow> error + URL) \<Rightarrow> (URL \<Rightarrow> string \<times> error option)
    \<Rightarrow> heap \<Rightarrow> addr \<Rightarrow> (error + addr) \<times> heap" where
  "rewriteTemplateURL splitSourceURL gitLastReleaseTag h parsedTemplateURL =
     (let updatedTemplateURL = parsedTemplateURL;
          templateParams = Query (h updatedTemplateURL);
          ref = Values_Get templateParams refParam
      in if ref = [] then
           (case splitSourceURL (h updatedTemplateURL) of
              Inl err \<Rightarrow> (Inl (ErrorsNew err), h)
            | Inr rootSourceURL \<Rightarrow>
                (case gitLastReleaseTag rootSourceURL of
                   (tag, err) \<Rightarrow>
                     if err \<noteq> None \<or> tag = [] then (Inr updatedTemplateURL, h)
                     else (let templateParams = Values_Add templateParams refParam tag
                           in (Inr updatedTemplateURL,
                               h(updatedTemplateURL :=
                                   (h updatedTemplateURL)
                                     \<lparr>RawQuery := Values_Encode templateParams\<rparr>)))))
         else (Inr updatedTemplateURL, h))"

section \<open>The pipeline: parseModuleURL, prepareBoilerplateFiles, Run\<close>

text \<open>The fields of \<^verbatim>\<open>options.TerragruntOptions\<close> that the pipeline reads.\<close>

record TerragruntOptions =
  WorkingDir :: string
  ScaffoldVars :: "string list"
  ScaffoldVarFiles :: "string list"
  NonInteractive :: bool

text \<open>
  A value of the variable map handed to the template engine: a variable of the caller, or
  one of the two classified declaration lists.
\<close>

datatype tvalue = UserValue gvalue | Variables "ParsedVariable list"

record BoilerplateOptions =
  OutputFolder :: string
  Vars :: "string \<rightharpoonup> tvalue"
  DisableShell :: bool
  DisableHooks :: bool
  BoilerplateNonInteractive :: bool
  TemplateFolder :: string

text \<open>
  What the pipeline calls and does not define. Each field is the call's answer as a
  function of its arguments; the context and the logger are left out.
  \<^item> \<open>IsDirectoryEmpty\<close>: \<^verbatim>\<open>util.IsDirectoryEmpty\<close>, returning (empty, err).
  \<^item> \<open>MkdirTemp\<close>: \<^verbatim>\<open>os.MkdirTemp("", pattern)\<close>, the path of the directory it made, or
    the error.
  \<^item> \<open>RemoveAll\<close>: \<^verbatim>\<open>os.RemoveAll\<close>; \<open>None\<close> when the directory was removed.
  \<^item> \<open>ParseVars\<close>: \<^verbatim>\<open>variables.ParseVars\<close>.
  \<^item> \<open>ToSourceURL\<close>, \<open>SplitSourceURL\<close>: of package \<^verbatim>\<open>terraform\<close>.
  \<^item> \<open>URLString\<close>: \<^verbatim>\<open>(*url.URL).String()\<close>.
  \<^item> \<open>GitLastReleaseTag\<close>: \<^verbatim>\<open>shell.GitLastReleaseTag\<close>.
  \<^item> \<open>GetAny\<close>: \<^verbatim>\<open>getter.GetAny(ctx, dst, src)\<close>, of which only the error is used.
  \<^item> \<open>ParseVariables\<close>: \<^verbatim>\<open>config.ParseVariables\<close>.
  \<^item> \<open>JoinPath\<close>, \<open>DefaultBoilerplateDir\<close>: of package \<^verbatim>\<open>util\<close>.
  \<^item> \<open>IsExistingDir\<close>: \<^verbatim>\<open>files.IsExistingDir\<close>.
  \<^item> \<open>WriteFile\<close>: \<^verbatim>\<open>os.WriteFile\<close> of one of the two fixed default files, by its path.
  \<^item> \<open>ProcessTemplate\<close>: \<^verbatim>\<open>templates.ProcessTemplate\<close>.
  \<^item> \<open>hclfmtRun\<close>: \<^verbatim>\<open>hclfmt.Run\<close>.
\<close>

record collaborators =
  IsDirectoryEmpty :: "string \<Rightarrow> bool \<times> error option"
  MkdirTemp :: "string \<Rightarrow> error + string"
  RemoveAll :: "string \<Rightarrow> error option"
  ParseVars :: "string list \<Rightarrow> string list \<Rightarrow> error + vars"
  ToSourceURL :: "string \<Rightarrow> string \<Rightarrow> error + URL"
  SplitSourceURL :: "URL \<Rightarrow> error + URL"
  URLString :: "URL \<Rightarrow> string"
  GitLastReleaseTag :: "URL \<Rightarrow> string \<times> error option"
  GetAny :: "string \<Rightarrow> string \<Rightarrow> error option"
  ParseVariables :: "string \<Rightarrow> error + ParsedVariable list"
  JoinPath :: "string \<Rightarrow> string \<Rightarrow> string"
  DefaultBoilerplateDir :: string
  IsExistingDir :: "string \<Rightarrow> bool"
  WriteFile :: "string \<Rightarrow> error option"
  ProcessTemplate :: "BoilerplateOptions \<Rightarrow> error option"
  hclfmtRun :: "TerragruntOptions \<Rightarrow> error option"

text \<open>
  The URL object a call of \<^verbatim>\<open>ToSourceURL\<close> returns is fresh, and no pointer to it leaves
  the function that asked for it: it is held at address 0 of a store of that function's
  own.
\<close>

definition newURL :: "URL \<Rightarrow> heap \<times> addr" where
  "newURL u = ((\<lambda>_. u), 0)"

text \<open>\<^verbatim>\<open>parseModuleURL(ctx, opts, vars, moduleURL)\<close>.\<close>

definition parseModuleURL ::
  "collaborators \<Rightarrow> TerragruntOptions \<Rightarrow> vars \<Rightarrow> string \<Rightarrow> error + string" where
  "parseModuleURL c opts vars moduleURL =
     (case ToSourceURL c moduleURL (WorkingDir opts) of
        Inl err \<Rightarrow> Inl (ErrorsNew err)
      | Inr parsedModuleURL \<Rightarrow>
          (let moduleURL = URLString c parsedModuleURL
           in case rewriteModuleURL (ToSourceURL c) (WorkingDir opts) vars moduleURL of
                Inl err \<Rightarrow> Inl (ErrorsNew err)
              | Inr parsedModuleURL \<Rightarrow>
                  (case newURL parsedModuleURL of
                     (h, parsedModuleURL) \<Rightarrow>
                       (case addRefToModuleURL (SplitSourceURL c) (GitLastReleaseTag c)
                               h parsedModuleURL vars of
                          (Inl err, h) \<Rightarrow> Inl (ErrorsNew err)
                        | (Inr parsedModuleURL, h) \<Rightarrow> Inr (URLString c (h parsedModuleURL))))))"

text \<open>
  The first block of \<^verbatim>\<open>prepareBoilerplateFiles\<close>, up to
  \<^verbatim>\<open>templateURL = parsedTemplateURL.String()\<close>: the template URL is normalised relative
  to the module's download directory and handed to \<^verbatim>\<open>rewriteTemplateURL\<close>.
\<close>

definition resolveTemplateURL :: "collaborators \<Rightarrow> string \<Rightarrow> string \<Rightarrow> error + string" where
  "resolveTemplateURL c templateURL tempDir =
     (case ToSourceURL c templateURL tempDir of
        Inl err \<Rightarrow> Inl (ErrorsNew err)
      | Inr parsedTemplateURL \<Rightarrow>
          (case newURL parsedTemplateURL of
             (h, parsedTemplateURL) \<Rightarrow>
               (case rewriteTemplateURL (SplitSourceURL c) (GitLastReleaseTag c)
                       h parsedTemplateURL of
                  (Inl err, h) \<Rightarrow> Inl (ErrorsNew err)
                | (Inr parsedTemplateURL, h) \<Rightarrow> Inr (URLString c (h parsedTemplateURL)))))"

text \<open>
  The filesystem, as far as the pipeline's scratch directories go: the set of directories
  that exist. \<^verbatim>\<open>os.MkdirTemp\<close> adds the directory it made, \<^verbatim>\<open>os.RemoveAll\<close> takes the
  directory away when it succeeds.
\<close>

type_synonym filesystem = "string set"

text \<open>
  The rest of \<^verbatim>\<open>prepareBoilerplateFiles\<close>, from \<^verbatim>\<open>boilerplateDir := ...\<close> on, given the
  value \<open>templateDir\<close> has there.
\<close>

definition prepareBoilerplateDir ::
  "collaborators \<Rightarrow> filesystem \<Rightarrow> string \<Rightarrow> string \<Rightarrow> (error + string) \<times> filesystem" where
  "prepareBoilerplateDir c fs templateDir tempDir =
     (let boilerplateDir = JoinPath c tempDir (DefaultBoilerplateDir c);
          boilerplateDir = (if templateDir \<noteq> [] then templateDir else boilerplateDir)
      in if \<not> IsExistingDir c boilerplateDir then
           (case MkdirTemp c ''boilerplate'' of
              Inl err \<Rightarrow> (Inl (ErrorsNew err), fs)
            | Inr defaultTempDir \<Rightarrow>
                (let fs = insert defaultTempDir fs;
                     boilerplateDir = defaultTempDir
                 in case WriteFile c (JoinPath c boilerplateDir ''terragrunt.hcl'') of
                      Some err \<Rightarrow> (Inl (ErrorsNew err), fs)
                    | None \<Rightarrow>
                        (case WriteFile c (JoinPath c boilerplateDir ''boilerplate.yml'') of
                           Some err \<Rightarrow> (Inl (ErrorsNew err), fs)
                         | None \<Rightarrow> (Inr boilerplateDir, fs))))
         else (Inr boilerplateDir, fs))"

text \<open>\<^verbatim>\<open>prepareBoilerplateFiles(ctx, opts, templateURL, tempDir)\<close>.\<close>

definition prepareBoilerplateFiles ::
  "collaborators \<Rightarrow> filesystem \<Rightarrow> string \<Rightarrow> string \<Rightarrow> (error + string) \<times> filesystem" where
  "prepareBoilerplateFiles c fs templateURL tempDir =
     (let templateDir = []
      in if templateURL \<noteq> [] then
           (case resolveTemplateURL c templateURL tempDir of
              Inl err \<Rightarrow> (Inl err, fs)
            | Inr templateURL \<Rightarrow>
                (case MkdirTemp c ''template'' of
                   Inl err \<Rightarrow> (Inl (ErrorsNew err), fs)
                 | Inr templateDir \<Rightarrow>
                     (let fs = insert templateDir fs
                      in case GetAny c templateDir templateURL of
                           Some err \<Rightarrow> (Inl (ErrorsNew err), fs)
                         | None \<Rightarrow> prepareBoilerplateDir c fs templateDir tempDir)))
         else prepareBoilerplateDir c fs templateDir tempDir)"

text \<open>
  The deferred function of \<^verbatim>\<open>Run\<close>: it walks \<^verbatim>\<open>dirsToClean\<close> and removes each directory;
  a failure of \<^verbatim>\<open>os.RemoveAll\<close> is logged and the walk goes on.
\<close>

fun cleanDirs :: "collaborators \<Rightarrow> string list \<Rightarrow> filesystem \<Rightarrow> filesystem" where
  "cleanDirs c [] fs = fs"
| "cleanDirs c (dir # dirsToClean) fs =
     (case RemoveAll c dir of
        Some err \<Rightarrow> cleanDirs c dirsToClean fs
      | None \<Rightarrow> cleanDirs c dirsToClean (fs - {dir}))"

text \<open>
  The body of \<^verbatim>\<open>Run\<close>: the error it returns (\<open>None\<close> is nil), the value of
  \<^verbatim>\<open>dirsToClean\<close> at that return, and the filesystem.
\<close>

definition RunBody ::
  "collaborators \<Rightarrow> TerragruntOptions \<Rightarrow> filesystem \<Rightarrow> string \<Rightarrow> string
    \<Rightarrow> error option \<times> string list \<times> filesystem" where
  "RunBody c opts fs moduleURL templateURL =
     (let dirsToClean = []
      in case IsDirectoryEmpty c (WorkingDir opts) of
           (isEmpty, err) \<Rightarrow>
      if (\<not> isEmpty \<or> err \<noteq> None) \<and> err \<noteq> None then (err, dirsToClean, fs)
      else if moduleURL = [] then (Some (ErrorsNew NoModuleURLPassed), dirsToClean, fs)
      else
        (case MkdirTemp c ''scaffold'' of
           Inl err \<Rightarrow> (Some (ErrorsNew err), dirsToClean, fs)
         | Inr tempDir \<Rightarrow>
        (let fs = insert tempDir fs;
             dirsToClean = dirsToClean @ [tempDir]
         in case ParseVars c (ScaffoldVars opts) (ScaffoldVarFiles opts) of
              Inl err \<Rightarrow> (Some (ErrorsNew err), dirsToClean, fs)
            | Inr vars \<Rightarrow>
        (case parseModuleURL c opts vars moduleURL of
           Inl err \<Rightarrow> (Some (ErrorsNew err), dirsToClean, fs)
         | Inr moduleURL \<Rightarrow>
        (case GetAny c tempDir moduleURL of
           Some err \<Rightarrow> (Some (ErrorsNew err), dirsToClean, fs)
         | None \<Rightarrow>
        (case parseVariables (ParseVariables c) tempDir of
           Inl err \<Rightarrow> (Some (ErrorsNew err), dirsToClean, fs)
         | Inr (requiredVariables, optionalVariables) \<Rightarrow>
        (case prepareBoilerplateFiles c fs templateURL tempDir of
           (Inl err, fs) \<Rightarrow> (Some (ErrorsNew err), dirsToClean, fs)
         | (Inr boilerplateDir, fs) \<Rightarrow>
        (let boilerplateOpts =
               \<lparr>OutputFolder = WorkingDir opts,
                Vars = (\<lambda>k. map_option UserValue (vars k))
                         (''requiredVariables'' \<mapsto> Variables requiredVariables,
                          ''optionalVariables'' \<mapsto> Variables optionalVariables,
                          ''sourceUrl'' \<mapsto> UserValue (GString moduleURL)),
                DisableShell = True,
                DisableHooks = True,
                BoilerplateNonInteractive = NonInteractive opts,
                TemplateFolder = boilerplateDir\<rparr>
         in case ProcessTemplate c boilerplateOpts of
              Some err \<Rightarrow> (Some (ErrorsNew err), dirsToClean, fs)
            | None \<Rightarrow>
        (case hclfmtRun c opts of
           Some err \<Rightarrow> (Some (ErrorsNew err), dirsToClean, fs)
         | None \<Rightarrow> (None, dirsToClean, fs))))))))))"

text \<open>
  \<^verbatim>\<open>Run(ctx, opts, moduleURL, templateURL)\<close>: the body, then the deferred clean-up on the
  list the body left.
\<close>

definition Run ::
  "collaborators \<Rightarrow> TerragruntOptions \<Rightarrow> filesystem \<Rightarrow> string \<Rightarrow> string
    \<Rightarrow> error option \<times> filesystem" where
  "Run c opts fs moduleURL templateURL =
     (case RunBody c opts fs moduleURL templateURL of
        (err, dirsToClean, fs) \<Rightarrow> (err, cleanDirs c dirsToClean fs))"

section \<open>Exit codes (package util)\<close>

text \<open>
  \<^verbatim>\<open>GetExitCode\<close> calls \<^verbatim>\<open>errors.Unwrap\<close> and \<^verbatim>\<open>errors.As\<close> of the repository's package
  \<^verbatim>\<open>internal/errors\<close>, which is not among the sources. They are taken to be the standard
  library's functions of the same names, which that package hands through; the multierror
  is \<^verbatim>\<open>hashicorp/go-multierror\<close>, whose \<^verbatim>\<open>Unwrap\<close> gives the only member, or a chain
  over the members.

  The error values \<^verbatim>\<open>GetExitCode\<close> tells apart:
  \<^item> \<open>PlainError\<close>: an error with no \<^verbatim>\<open>Unwrap\<close>, \<^verbatim>\<open>As\<close> or \<^verbatim>\<open>ExitStatus\<close> method;
  \<^item> \<open>Wrapped\<close>: an error whose \<^verbatim>\<open>Unwrap() error\<close> returns the error inside
    (\<^verbatim>\<open>fmt.Errorf("%w", err)\<close>, an error with a stack trace);
  \<^item> \<open>ExitError\<close>: \<^verbatim>\<open>*exec.ExitError\<close>, with the \<^verbatim>\<open>ExitStatus()\<close> of its wait status;
  \<^item> \<open>ProcessExecutionError\<close>: the struct of this package, with its field \<^verbatim>\<open>Err\<close>
    (\<open>None\<close> is nil); it has the methods \<^verbatim>\<open>Error\<close> and \<^verbatim>\<open>ExitStatus\<close>, and no \<^verbatim>\<open>Unwrap\<close>;
  \<^item> \<open>MultiError\<close>: \<^verbatim>\<open>*multierror.Error\<close>, with its field \<^verbatim>\<open>Errors\<close>.
\<close>

datatype goerror =
    PlainError string
  | Wrapped goerror
  | ExitError int
  | ProcessExecutionError "goerror option"
  | MultiError "goerror list"

fun firstSome :: "'a option list \<Rightarrow> 'a option" where
  "firstSome [] = None"
| "firstSome (Some x # xs) = Some x"
| "firstSome (None # xs) = firstSome xs"

text \<open>
  \<^verbatim>\<open>errors.As(err, &exiterr)\<close> for \<^verbatim>\<open>*exec.ExitError\<close>: the error itself, else what it
  unwraps to. A multierror unwraps to the chain of its members, which \<^verbatim>\<open>As\<close> searches
  member by member.
\<close>

fun as_ExitError :: "goerror \<Rightarrow> int option" where
  "as_ExitError (ExitError status) = Some status"
| "as_ExitError (Wrapped err) = as_ExitError err"
| "as_ExitError (MultiError errs) = firstSome (map as_ExitError errs)"
| "as_ExitError (PlainError msg) = None"
| "as_ExitError (ProcessExecutionError inner) = None"

text \<open>\<^verbatim>\<open>errors.As(err, &multiErr)\<close> for \<^verbatim>\<open>*multierror.Error\<close>.\<close>

fun as_MultiError :: "goerror \<Rightarrow> goerror list option" where
  "as_MultiError (MultiError errs) = Some errs"
| "as_MultiError (Wrapped err) = as_MultiError err"
| "as_MultiError (PlainError msg) = None"
| "as_MultiError (ExitError status) = None"
| "as_MultiError (ProcessExecutionError inner) = None"

text \<open>
  \<^verbatim>\<open>errors.Unwrap(err).(iErrorCode)\<close>: the type assertion holds when the error unwraps, in
  one step, to a \<^verbatim>\<open>ProcessExecutionError\<close>; the result is then that error's field
  \<^verbatim>\<open>Err\<close>. A multierror with one member unwraps to the member, one with several to a
  chain, which has no \<^verbatim>\<open>ExitStatus\<close>.
\<close>

fun Unwrap_iErrorCode :: "goerror \<Rightarrow> goerror option option" where
  "Unwrap_iErrorCode (Wrapped (ProcessExecutionError inner)) = Some inner"
| "Unwrap_iErrorCode (MultiError [ProcessExecutionError inner]) = Some inner"
| "Unwrap_iErrorCode err = None"

text \<open>
  \<^verbatim>\<open>GetExitCode(err)\<close>, with \<open>None\<close> for a nil error, and the loop over the members of a
  multierror. \<^verbatim>\<open>ProcessExecutionError.ExitStatus()\<close> is \<^verbatim>\<open>GetExitCode(err.Err)\<close>.
\<close>

function GetExitCode :: "goerror option \<Rightarrow> int \<times> goerror option"
  and multiErrLoop :: "goerror list \<Rightarrow> int option" where
  "GetExitCode None = (0, None)"
| "GetExitCode (Some err) =
     (case Unwrap_iErrorCode err of
        Some inner \<Rightarrow> GetExitCode inner
      | None \<Rightarrow>
          (case as_ExitError err of
             Some status \<Rightarrow> (status, None)
           | None \<Rightarrow>
               (case as_MultiError err of
                  Some errs \<Rightarrow>
                    (case multiErrLoop errs of
                       Some exitCode \<Rightarrow> (exitCode, None)
                     | None \<Rightarrow> (0, Some err))
                | None \<Rightarrow> (0, Some err))))"
| "multiErrLoop [] = None"
| "multiErrLoop (e # errs) =
     (case GetExitCode (Some e) of
        (exitCode, exitCodeErr) \<Rightarrow>
          if exitCodeErr = None then Some exitCode else multiErrLoop errs)"
  by pat_completeness auto
termination
proof (relation "measure (\<lambda>x. case x of
          Inl err \<Rightarrow> 2 * size_option size err + 1
        | Inr errs \<Rightarrow> 2 * size_list size errs + 2)")
  have unwrap: "size_option size inner < size err"
    if "Unwrap_iErrorCode err = Some inner" for err inner
    using that by (induction err rule: Unwrap_iErrorCode.induct) auto
  have multi: "size_list size errs < size err"
    if "as_MultiError err = Some errs" for err errs
    using that by (induction err rule: as_MultiError.induct) auto
  fix err :: goerror and inner :: "goerror option"
  assume "Unwrap_iErrorCode err = Some inner"
  from unwrap [OF this]
  show "(Inl inner, Inl (Some err)) \<in> measure (\<lambda>x. case x of
          Inl err \<Rightarrow> 2 * size_option size err + 1
        | Inr errs \<Rightarrow> 2 * size_list size errs + 2)"
    by simp
next
  have multi: "size_list size errs < size err"
    if "as_MultiError err = Some errs" for err errs
    using that by (induction err rule: as_MultiError.induct) auto
  fix err :: goerror and errs :: "goerror list"
  assume "as_MultiError err = Some errs"
  from multi [OF this]
  show "(Inr errs, Inl (Some err)) \<in> measure (\<lambda>x. case x of
          Inl err \<Rightarrow> 2 * size_option size err + 1
        | Inr errs \<Rightarrow> 2 * size_list size errs + 2)"
    by simp
qed simp_all

section \<open>Example inputs\<close>

text \<open>
  The URL \<^verbatim>\<open>git::https://example.com/org/repo.git//modules/foo\<close> with a given query
  string, as \<^verbatim>\<open>url.Parse\<close> reads it.
\<close>

definition exampleURL :: "string \<Rightarrow> URL" where
  "exampleURL rawQuery =
     \<lparr>Scheme = ''git::https'', Opaque = [], User = None, Host = ''example.com'',
      Path = ''/org/repo.git//modules/foo'', RawPath = [], OmitHost = False,
      ForceQuery = False, RawQuery = rawQuery, Fragment = [], RawFragment = []\<rparr>"

definition exampleSource :: string where
  "exampleSource = ''git::https://example.com/org/repo.git//modules/foo''"

text \<open>A store whose cells all hold the URL \<open>u\<close>.\<close>

definition oneURL :: "URL \<Rightarrow> heap" where
  "oneURL u = (\<lambda>a. u)"

text \<open>Collaborators for the examples: a root split that succeeds, a tag lookup that finds
  the given tag, and one that fails.\<close>

definition splitRoot :: "URL \<Rightarrow> error + URL" where
  "splitRoot u = Inr (u\<lparr>Path := ''/org/repo.git''\<rparr>)"

definition tagFound :: "string \<Rightarrow> URL \<Rightarrow> string \<times> error option" where
  "tagFound tag root = (tag, None)"

definition tagLookupFails :: "URL \<Rightarrow> string \<times> error option" where
  "tagLookupFails root = ([], Some (External ''git ls-remote failed''))"

text \<open>A normaliser that refuses every source with the source as its message: its error
  shows which string \<^verbatim>\<open>rewriteModuleURL\<close> handed to it.\<close>

definition echoSource :: "string \<Rightarrow> string \<Rightarrow> error + URL" where
  "echoSource source dir = Inl (External source)"

text \<open>
  A run in which every collaborator succeeds. The normaliser knows the example source,
  with or without a query string; the rendering of a URL is the one \<^verbatim>\<open>String()\<close> gives
  for a URL of the shape of \<open>exampleURL\<close>; the fetched module has no
  \<^verbatim>\<open>.boilerplate\<close> directory, while a fetched template directory exists.
\<close>

definition exampleCollaborators :: collaborators where
  "exampleCollaborators =
     \<lparr>IsDirectoryEmpty = (\<lambda>dir. (True, None)),
      MkdirTemp = (\<lambda>pattern. Inr (''/tmp/'' @ pattern @ ''1'')),
      RemoveAll = (\<lambda>dir. None),
      ParseVars = (\<lambda>vs files. Inr Map.empty),
      ToSourceURL =
        (\<lambda>source dir.
           case Cut source CHR ''?'' of
             (base, rawQuery) \<Rightarrow>
               if base = exampleSource then Inr (exampleURL rawQuery)
               else Inl (External ''unsupported source'')),
      SplitSourceURL = splitRoot,
      URLString =
        (\<lambda>u. Scheme u @ ''://'' @ Host u @ Path u
               @ (if RawQuery u = [] then [] else CHR ''?'' # RawQuery u)),
      GitLastReleaseTag = tagFound ''v1.2.0'',
      GetAny = (\<lambda>dst src. None),
      ParseVariables = (\<lambda>dir. Inr []),
      JoinPath = (\<lambda>a b. a @ CHR ''/'' # b),
      DefaultBoilerplateDir = ''.boilerplate'',
      IsExistingDir = (\<lambda>dir. dir = ''/tmp/template1''),
      WriteFile = (\<lambda>file. None),
      ProcessTemplate = (\<lambda>boilerplateOpts. None),
      hclfmtRun = (\<lambda>opts. None)\<rparr>"

definition exampleOptions :: TerragruntOptions where
  "exampleOptions =
     \<lparr>WorkingDir = ''/work'', ScaffoldVars = [], ScaffoldVarFiles = [], NonInteractive = True\<rparr>"

lemmas eval_defs =
  addRefToModuleURL_def rewriteTemplateURL_def exampleURL_def Query_def refVar_def refParam_def
  Values_Set_def Values_Get_def Values_Add_def Values_Encode_def Values_of_def encodePair_def
  shouldEscape_def isAlnum_def Cut_def parsePair_def oneURL_def splitRoot_def tagFound_def

section \<open>Facts about the query-string model\<close>

lemma hexdigit: "i < 16 \<Longrightarrow> ishex (upperhex ! i) \<and> unhex (upperhex ! i) = i"
proof -
  assume "i < 16"
  then have "i \<in> set [0..<16]" by simp
  moreover have "\<forall>i \<in> set [0..<16]. ishex (upperhex ! i) \<and> unhex (upperhex ! i) = i"
    by code_simp
  ultimately show ?thesis by blast
qed

lemma hexdigit_plain: "i < 16 \<Longrightarrow> upperhex ! i \<notin> {CHR ''&'', CHR ''='', CHR '';''}"
proof -
  assume "i < 16"
  then have "i \<in> set [0..<16]" by simp
  moreover have "\<forall>i \<in> set [0..<16]. upperhex ! i \<notin> {CHR ''&'', CHR ''='', CHR '';''}"
    by code_simp
  ultimately show ?thesis by blast
qed

lemma of_char_div_16: "(of_char (c::char) :: nat) div 16 < 16"
proof -
  have "(of_char c :: nat) < 16 * 16" by simp
  then show ?thesis
    by (simp only: div_less_iff_less_mult [OF zero_less_numeral] mult.commute)
qed

lemma QueryUnescape_QueryEscape: "QueryUnescape (QueryEscape s) = Some s"
proof (induction s)
  case Nil
  show ?case by simp
next
  case (Cons c s)
  let ?n = "of_char c :: nat"
  have d: "?n div 16 < 16" by (rule of_char_div_16)
  have m: "?n mod 16 < 16" by simp
  have dec: "char_of (unhex (upperhex ! (?n div 16)) * 16 + unhex (upperhex ! (?n mod 16))) = c"
    using hexdigit [OF d] hexdigit [OF m] by simp
  have keep: "\<not> shouldEscape c \<Longrightarrow> c \<noteq> CHR ''%'' \<and> c \<noteq> CHR ''+''"
    by (auto simp: shouldEscape_def isAlnum_def)
  show ?case
    using Cons.IH dec keep hexdigit [OF d] hexdigit [OF m]
    by (simp del: of_char_mod_256)
qed

lemma QueryEscape_plain: "set (QueryEscape s) \<inter> {CHR ''&'', CHR ''='', CHR '';''} = {}"
proof (induction s)
  case Nil
  show ?case by simp
next
  case (Cons c s)
  let ?n = "of_char c :: nat"
  have d: "?n div 16 < 16" by (rule of_char_div_16)
  have m: "?n mod 16 < 16" by simp
  have keep: "\<not> shouldEscape c \<Longrightarrow> c \<notin> {CHR ''&'', CHR ''='', CHR '';''}"
    by (auto simp: shouldEscape_def isAlnum_def)
  show ?case
    using Cons.IH keep hexdigit_plain [OF d] hexdigit_plain [OF m]
    by auto
qed

lemma Cut_found: "sep \<notin> set a \<Longrightarrow> Cut (a @ sep # r) sep = (a, r)"
  by (induction a) (auto simp: Cut_def)

lemma Cut_absent: "sep \<notin> set a \<Longrightarrow> Cut a sep = (a, [])"
  by (induction a) (auto simp: Cut_def)

lemma encodePair_nonempty: "encodePair p \<noteq> []"
  by (simp add: encodePair_def)

lemma encodePair_plain: "CHR ''&'' \<notin> set (encodePair p)" "CHR '';'' \<notin> set (encodePair p)"
  using QueryEscape_plain [of "fst p"] QueryEscape_plain [of "snd p"]
  by (auto simp: encodePair_def)

lemma parsePair_encodePair: "parsePair (encodePair p) = [p]"
proof -
  have eq: "CHR ''='' \<notin> set (QueryEscape (fst p))"
    using QueryEscape_plain [of "fst p"] by auto
  have "Cut (encodePair p) CHR ''='' = (QueryEscape (fst p), QueryEscape (snd p))"
    unfolding encodePair_def using eq by (rule Cut_found)
  then show ?thesis
    using encodePair_plain [of p] encodePair_nonempty [of p]
    by (simp add: parsePair_def QueryUnescape_QueryEscape)
qed

lemma parseQuery_single:
  assumes "a \<noteq> []" "CHR ''&'' \<notin> set a"
  shows "parseQuery a = parsePair a"
proof -
  obtain c q where a: "a = c # q" using assms(1) by (cases a) auto
  show ?thesis using Cut_absent [OF assms(2)] unfolding a by simp
qed

lemma parseQuery_step:
  assumes "a \<noteq> []" "CHR ''&'' \<notin> set a"
  shows "parseQuery (a @ CHR ''&'' # r) = parsePair a @ parseQuery r"
proof -
  obtain c q where a: "a = c # q" using assms(1) by (cases a) auto
  have "Cut ((c # q) @ CHR ''&'' # r) CHR ''&'' = (c # q, r)"
    using assms(2) unfolding a by (rule Cut_found)
  then show ?thesis unfolding a by simp
qed

lemma parseQuery_joinAmp: "parseQuery (joinAmp (map encodePair ps)) = ps"
proof (induction ps rule: induct_list012)
  case 1
  show ?case by simp
next
  case (2 p)
  show ?case
    using parseQuery_single [OF encodePair_nonempty encodePair_plain(1), of p]
    by (simp add: parsePair_encodePair)
next
  case (3 p p' ps)
  show ?case
    using parseQuery_step [OF encodePair_nonempty encodePair_plain(1), of p] "3.IH"(2)
    by (simp add: parsePair_encodePair)
qed

text \<open>Parsing what \<^verbatim>\<open>Encode\<close> wrote gives the pairs back, sorted by key.\<close>

lemma parseQuery_Encode: "parseQuery (Values_Encode v) = sort_key fst v"
  by (simp add: Values_Encode_def parseQuery_joinAmp)

lemma Query_RawQuery_Encode: "Query (u\<lparr>RawQuery := Values_Encode ps\<rparr>) = sort_key fst ps"
  by (simp add: Query_def parseQuery_Encode)

lemma Values_Get_sort_key: "Values_Get (sort_key fst v) key = Values_Get v key"
  by (simp add: Values_Get_def sort_key_stable)


lemma sort_key_sorted_prefix: "sort_key f (sort_key f xs @ ys) = sort_key f (xs @ ys)"
proof (rule properties_for_sort_key)
  show "mset (sort_key f (xs @ ys)) = mset (sort_key f xs @ ys)"
    by simp
  show "sorted (map f (sort_key f (xs @ ys)))"
    by simp
  fix k
  have "filter (\<lambda>x. f k = f x) (sort_key f (xs @ ys))
          = filter (\<lambda>x. f k = f x) xs @ filter (\<lambda>x. f k = f x) ys"
    using sort_key_stable [of f "f k" "xs @ ys"] by (simp add: eq_commute)
  moreover have "filter (\<lambda>x. f k = f x) (sort_key f xs) = filter (\<lambda>x. f k = f x) xs"
    using sort_key_stable [of f "f k" xs] by (simp add: eq_commute)
  ultimately show "filter (\<lambda>x. f k = f x) (sort_key f (xs @ ys))
          = filter (\<lambda>x. f k = f x) (sort_key f xs @ ys)"
    by simp
qed

lemma Values_Encode_sorted_prefix:
  "Values_Encode (sort_key fst xs @ ys) = Values_Encode (xs @ ys)"
  by (simp add: Values_Encode_def sort_key_sorted_prefix)

lemma Values_Set_resort:
  "Values_Encode (Values_Set (sort_key fst (Values_Set q k v)) k w)
     = Values_Encode (Values_Set q k w)"
  by (simp add: Values_Set_def filter_sort Values_Encode_sorted_prefix)

lemma Values_Add_Set_resort:
  "Values_Encode (Values_Add (Values_Set (sort_key fst (Values_Add (Values_Set q k v) k t)) k w) k t')
     = Values_Encode (Values_Add (Values_Set q k w) k t')"
  by (simp add: Values_Set_def Values_Add_def filter_sort Values_Encode_sorted_prefix)

lemma Values_Get_Set: "Values_Get (Values_Set q k v) k = v"
  by (simp add: Values_Get_def Values_Set_def)



lemma Values_Get_Add_absent: "k \<notin> fst ` set q \<Longrightarrow> Values_Get (Values_Add q k t) k = t"
proof -
  assume "k \<notin> fst ` set q"
  then have "filter (\<lambda>p. fst p = k) q = []"
    by (auto simp: filter_empty_conv)
  then show ?thesis by (simp add: Values_Get_def Values_Add_def)
qed


section \<open>C1: clean-up of scratch directories\<close>

text \<open>The deferred loop removes nothing that is not in \<^verbatim>\<open>dirsToClean\<close>.\<close>

lemma cleanDirs_keeps:
  "d \<in> fs \<Longrightarrow> d \<notin> set dirsToClean \<Longrightarrow> d \<in> cleanDirs c dirsToClean fs"
  by (induction dirsToClean arbitrary: fs) (auto split: option.splits)

text \<open>At every return of the body, \<^verbatim>\<open>dirsToClean\<close> holds at most the module download
  directory.\<close>

lemma RunBody_dirsToClean:
  assumes "RunBody c opts fs moduleURL templateURL = (err, dirsToClean, fs')"
  shows "set dirsToClean
           \<subseteq> (case MkdirTemp c ''scaffold'' of Inl e \<Rightarrow> {} | Inr tempDir \<Rightarrow> {tempDir})"
  using assms
  by (auto simp: RunBody_def Let_def split: prod.splits sum.splits option.splits if_splits)

text \<open>So every directory that exists when the body returns, other than the module download
  directory, exists when \<^verbatim>\<open>Run\<close> returns.\<close>

lemma Run_cleans_only_module_dir:
  assumes "RunBody c opts fs moduleURL templateURL = (err, dirsToClean, fs')"
  shows "fs' - (case MkdirTemp c ''scaffold'' of Inl e \<Rightarrow> {} | Inr tempDir \<Rightarrow> {tempDir})
           \<subseteq> snd (Run c opts fs moduleURL templateURL)"
proof
  fix d
  assume "d \<in> fs' - (case MkdirTemp c ''scaffold'' of Inl e \<Rightarrow> {} | Inr tempDir \<Rightarrow> {tempDir})"
  with RunBody_dirsToClean [OF assms] have "d \<in> fs'" "d \<notin> set dirsToClean"
    by auto
  then have "d \<in> cleanDirs c dirsToClean fs'"
    by (rule cleanDirs_keeps)
  then show "d \<in> snd (Run c opts fs moduleURL templateURL)"
    using assms by (simp add: Run_def)
qed

text \<open>
  C1. The claim is that every scratch directory made during a run (the module download
  directory, the template download directory and the default-template directory) is gone
  when \<^verbatim>\<open>Run\<close> returns. The code appends only the module download directory to
  \<^verbatim>\<open>dirsToClean\<close>; the two directories made in \<^verbatim>\<open>prepareBoilerplateFiles\<close> are never
  appended. In a run where every collaborator succeeds and every \<^verbatim>\<open>os.RemoveAll\<close> succeeds,
  the module directory \<^verbatim>\<open>/tmp/scaffold1\<close> is removed, and the template directory
  \<^verbatim>\<open>/tmp/template1\<close> (template URL given) or the default-template directory
  \<^verbatim>\<open>/tmp/boilerplate1\<close> (no template URL) is still there.
\<close>

theorem Run_leaves_template_directories:
  "Run exampleCollaborators exampleOptions {} exampleSource (exampleSource @ ''?ref=v1'')
     = (None, {''/tmp/template1''})
   \<and> Run exampleCollaborators exampleOptions {} exampleSource []
     = (None, {''/tmp/boilerplate1''})"
  by (simp add: Run_def RunBody_def prepareBoilerplateFiles_def prepareBoilerplateDir_def
        parseVariables_def insert_Diff_if
        exampleCollaborators_def exampleOptions_def exampleSource_def parseModuleURL_def
        resolveTemplateURL_def rewriteModuleURL_def parseURL_def matchRest_def newURL_def
        sourceURLTypeVar_def sourceURLTypeHTTPS_def sourceURLTypeGit_def
        sourceGitSSHUserVar_def sourceGitSSHUser_def TrimPrefix_def eval_defs)

section \<open>C2: the classification\<close>

lemma classify_loop_filter:
  "classify_loop inputs req opt =
     (req @ filter (\<lambda>v. DefaultValue v = []) inputs,
      opt @ filter (\<lambda>v. DefaultValue v \<noteq> []) inputs)"
  by (induction inputs arbitrary: req opt) simp_all

text \<open>
  C2. Whenever the declaration parser delivers a list, \<^verbatim>\<open>parseVariables\<close> returns without
  error, and its two results are the declarations with an empty default and those with a
  non-empty default, each in input order: the lengths add up to the input's length, the
  two lists together hold exactly the input's elements (as a multiset), no element is in
  both, each list is a subsequence of the input, and the empty input gives two empty
  lists.
\<close>

theorem parseVariables_partition:
  assumes "configParseVariables moduleDir = Inr inputs"
  shows "\<exists>required optional.
           parseVariables configParseVariables moduleDir = Inr (required, optional)
         \<and> required = filter (\<lambda>v. DefaultValue v = []) inputs
         \<and> optional = filter (\<lambda>v. DefaultValue v \<noteq> []) inputs
         \<and> length required + length optional = length inputs
         \<and> mset required + mset optional = mset inputs
         \<and> set required \<inter> set optional = {}
         \<and> subseq required inputs \<and> subseq optional inputs
         \<and> (inputs = [] \<longrightarrow> required = [] \<and> optional = [])"
proof -
  let ?r = "filter (\<lambda>v. DefaultValue v = []) inputs"
  let ?o = "filter (\<lambda>v. DefaultValue v \<noteq> []) inputs"
  have run: "parseVariables configParseVariables moduleDir = Inr (?r, ?o)"
    using assms by (simp add: parseVariables_def classify_loop_filter)
  have len: "length ?r + length ?o = length inputs"
    by (rule sum_length_filter_compl)
  have ms: "mset ?r + mset ?o = mset inputs"
    by (induction inputs) simp_all
  have disj: "set ?r \<inter> set ?o = {}"
    by auto
  have sub: "subseq ?r inputs" "subseq ?o inputs"
    by simp_all
  from run len ms disj sub show ?thesis
    by simp
qed

theorem parseVariables_partition_witness:
  "parseVariables
     (\<lambda>d. Inr [\<lparr>Name = ''a'', Description = '''', Type = ''string'', DefaultValue = '''',
                  DefaultValuePlaceholder = ''null''\<rparr>,
               \<lparr>Name = ''b'', Description = '''', Type = ''number'', DefaultValue = ''5'',
                  DefaultValuePlaceholder = ''0''\<rparr>])
     ''/tmp/scaffold1''
   = Inr ([\<lparr>Name = ''a'', Description = '''', Type = ''string'', DefaultValue = '''',
              DefaultValuePlaceholder = ''null''\<rparr>],
          [\<lparr>Name = ''b'', Description = '''', Type = ''number'', DefaultValue = ''5'',
              DefaultValuePlaceholder = ''0''\<rparr>])"
  using parseVariables_partition
    [of "\<lambda>d. Inr [\<lparr>Name = ''a'', Description = '''', Type = ''string'', DefaultValue = '''',
                      DefaultValuePlaceholder = ''null''\<rparr>,
                   \<lparr>Name = ''b'', Description = '''', Type = ''number'', DefaultValue = ''5'',
                      DefaultValuePlaceholder = ''0''\<rparr>]"
        "''/tmp/scaffold1''"]
  by simp

section \<open>C3: the reference override\<close>



section \<open>C4: applying addRefToModuleURL twice\<close>

text \<open>
  C4. The claim is that applying \<^verbatim>\<open>addRefToModuleURL\<close> twice, with the same variables and
  a fixed answer of the tag lookup, gives the URL that applying it once gives, and that a
  URL which carries a \<^verbatim>\<open>ref\<close> parameter is returned unchanged when no override is passed.
  The URL here carries \<^verbatim>\<open>ref=\<close> (the key with an empty value), no override is passed and
  the lookup finds \<^verbatim>\<open>v1\<close>. The tag branch writes with \<^verbatim>\<open>Add\<close>, where the override branch
  writes with \<^verbatim>\<open>Set\<close>: the first call appends the tag next to the empty value
  (\<^verbatim>\<open>ref=&ref=v1\<close>); the second call reads the empty first value again and appends the tag
  once more (\<^verbatim>\<open>ref=&ref=v1&ref=v1\<close>). The two results differ.
\<close>

theorem addRef_not_idempotent:
  "addRefToModuleURL splitRoot (tagFound ''v1'') (oneURL (exampleURL ''ref='')) 0 Map.empty
     = (Inr 0, (oneURL (exampleURL ''ref=''))(0 := exampleURL ''ref=&ref=v1''))
   \<and> addRefToModuleURL splitRoot (tagFound ''v1'')
       ((oneURL (exampleURL ''ref=''))(0 := exampleURL ''ref=&ref=v1'')) 0 Map.empty
     = (Inr 0, (oneURL (exampleURL ''ref=''))(0 := exampleURL ''ref=&ref=v1&ref=v1''))
   \<and> exampleURL ''ref=&ref=v1&ref=v1'' \<noteq> exampleURL ''ref=&ref=v1''
   \<and> exampleURL ''ref=&ref=v1'' \<noteq> exampleURL ''ref=''"
  by (simp add: eval_defs)

theorem addRef_not_idempotent_witness:
  "RawQuery (snd (addRefToModuleURL splitRoot (tagFound ''v1'')
       (oneURL (exampleURL ''ref='')) 0 Map.empty) 0) = ''ref=&ref=v1''
   \<and> RawQuery (snd (addRefToModuleURL splitRoot (tagFound ''v1'')
       ((oneURL (exampleURL ''ref=''))(0 := exampleURL ''ref=&ref=v1'')) 0 Map.empty) 0)
     = ''ref=&ref=v1&ref=v1''"
  using addRef_not_idempotent by (simp add: exampleURL_def)

text \<open>
  On every other input a second call changes nothing. The root split and the tag lookup
  give fixed answers \<open>s\<close> and \<open>g\<close>. Unless no override is passed, the URL's query has the
  key \<^verbatim>\<open>ref\<close> with an empty first value and the lookup finds a tag, a second call of
  \<^verbatim>\<open>addRefToModuleURL\<close> on the URL the first call returned, with the same variables,
  returns that URL and leaves the store as the first call left it. And with no override, a
  URL whose \<^verbatim>\<open>ref\<close> parameter is not empty is returned with the store unchanged.
\<close>

lemma addRef_idempotent:
  fixes s :: "error + URL" and g :: "string \<times> error option"
  assumes ok: "\<not> (vars refVar = None \<and> refParam \<in> fst ` set (Query (h p))
                \<and> Values_Get (Query (h p)) refParam = [] \<and> snd g = None \<and> fst g \<noteq> [])"
  shows "(\<forall>p' h'. addRefToModuleURL (\<lambda>_. s) (\<lambda>_. g) h p vars = (Inr p', h')
            \<longrightarrow> addRefToModuleURL (\<lambda>_. s) (\<lambda>_. g) h' p' vars = (Inr p', h'))
       \<and> (vars refVar = None \<and> Values_Get (Query (h p)) refParam \<noteq> []
            \<longrightarrow> addRefToModuleURL (\<lambda>_. s) (\<lambda>_. g) h p vars = (Inr p, h))"
proof -
  have twice: "addRefToModuleURL (\<lambda>_. s) (\<lambda>_. g) h' p' vars = (Inr p', h')"
    if run: "addRefToModuleURL (\<lambda>_. s) (\<lambda>_. g) h p vars = (Inr p', h')" for p' h'
  proof (cases "vars refVar")
    case None
    show ?thesis
    proof (cases "Values_Get (Query (h p)) refParam = []")
      case False
      with None run show ?thesis
        by (auto simp: addRefToModuleURL_def Let_def)
    next
      case True
      show ?thesis
      proof (cases "snd g = None \<and> fst g \<noteq> []")
        case False
        with None True run show ?thesis
          by (cases g) (auto simp: addRefToModuleURL_def Let_def split: sum.splits)
      next
        case found: True
        with ok None True have absent: "refParam \<notin> fst ` set (Query (h p))" by blast
        obtain root where s: "s = Inr root"
          using run None True by (cases s) (auto simp: addRefToModuleURL_def Let_def)
        obtain tag where g: "g = (tag, None)" "tag \<noteq> []"
          using found by (cases g) auto
        have res: "p' = p"
          "h' = h(p := (h p)\<lparr>RawQuery := Values_Encode (Values_Add (Query (h p)) refParam tag)\<rparr>)"
          using run None True s g by (auto simp: addRefToModuleURL_def Let_def)
        have "Values_Get (Query (h' p)) refParam = tag"
          unfolding res(2) fun_upd_same Query_RawQuery_Encode Values_Get_sort_key
          using absent by (rule Values_Get_Add_absent)
        with g(2) None res(1) show ?thesis
          by (simp add: addRefToModuleURL_def Let_def)
      qed
    qed
  next
    case (Some v)
    let ?q = "Query (h p)"
    let ?v = "sprintf_s v"
    let ?h1 = "h(p := (h p)\<lparr>RawQuery := Values_Encode (Values_Set ?q refParam ?v)\<rparr>)"
    show ?thesis
    proof (cases "?v = []")
      case False
      have res: "p' = p" "h' = ?h1"
        using run Some False by (auto simp: addRefToModuleURL_def Let_def Values_Get_Set)
      show ?thesis
        unfolding res using Some False
        by (simp add: addRefToModuleURL_def Let_def Values_Get_Set Query_RawQuery_Encode
              Values_Set_resort)
    next
      case True
      obtain root where s: "s = Inr root"
        using run Some True
        by (cases s) (auto simp: addRefToModuleURL_def Let_def Values_Get_Set)
      obtain tag err where g: "g = (tag, err)" by (cases g)
      show ?thesis
      proof (cases "err \<noteq> None \<or> tag = []")
        case fail: True
        have res: "p' = p" "h' = ?h1"
          using run Some True s g fail
          by (auto simp: addRefToModuleURL_def Let_def Values_Get_Set)
        show ?thesis
          unfolding res using Some True s g fail
          by (auto simp: addRefToModuleURL_def Let_def Values_Get_Set Query_RawQuery_Encode
                Values_Set_resort)
      next
        case found: False
        have res: "p' = p"
          "h' = h(p := (h p)\<lparr>RawQuery :=
                   Values_Encode (Values_Add (Values_Set ?q refParam ?v) refParam tag)\<rparr>)"
          using run Some True s g found
          by (auto simp: addRefToModuleURL_def Let_def Values_Get_Set)
        show ?thesis
          unfolding res using Some True s g found
          by (auto simp: addRefToModuleURL_def Let_def Values_Get_Set Query_RawQuery_Encode
                Values_Add_Set_resort)
      qed
    qed
  qed
  have pinned: "addRefToModuleURL (\<lambda>_. s) (\<lambda>_. g) h p vars = (Inr p, h)"
    if "vars refVar = None" "Values_Get (Query (h p)) refParam \<noteq> []"
    using that by (simp add: addRefToModuleURL_def Let_def)
  from twice pinned show ?thesis by blast
qed

text \<open>A URL without \<^verbatim>\<open>ref\<close>, no override, the lookup finds \<^verbatim>\<open>v1\<close>: pinned by the first
  call, unchanged by the second.\<close>

lemma addRef_idempotent_example:
  "addRefToModuleURL (\<lambda>_. splitRoot (exampleURL [])) (\<lambda>_. tagFound ''v1'' (exampleURL []))
       (oneURL (exampleURL [])) 0 Map.empty
     = (Inr 0, (oneURL (exampleURL []))(0 := exampleURL ''ref=v1''))
   \<and> addRefToModuleURL (\<lambda>_. splitRoot (exampleURL [])) (\<lambda>_. tagFound ''v1'' (exampleURL []))
       ((oneURL (exampleURL []))(0 := exampleURL ''ref=v1'')) 0 Map.empty
     = (Inr 0, (oneURL (exampleURL []))(0 := exampleURL ''ref=v1''))"
proof -
  have run: "addRefToModuleURL (\<lambda>_. splitRoot (exampleURL []))
      (\<lambda>_. tagFound ''v1'' (exampleURL [])) (oneURL (exampleURL [])) 0 Map.empty
     = (Inr 0, (oneURL (exampleURL []))(0 := exampleURL ''ref=v1''))"
    by (simp add: eval_defs)
  have ok: "\<not> (Map.empty refVar = (None :: gvalue option)
        \<and> refParam \<in> fst ` set (Query (oneURL (exampleURL []) 0))
        \<and> Values_Get (Query (oneURL (exampleURL []) 0)) refParam = []
        \<and> snd (tagFound ''v1'' (exampleURL [])) = None
        \<and> fst (tagFound ''v1'' (exampleURL [])) \<noteq> [])"
    by (simp add: eval_defs)
  from addRef_idempotent
    [where vars = Map.empty and h = "oneURL (exampleURL [])" and p = 0
       and s = "splitRoot (exampleURL [])" and g = "tagFound ''v1'' (exampleURL [])"]
    ok run
  show ?thesis by simp
qed

section \<open>C5: template URL resolution against module URL resolution\<close>

text \<open>
  C5 fails as stated. The same source, carrying \<^verbatim>\<open>ref=v1\<close>, resolved as a module URL and as
  a template URL,
  with the override \<^verbatim>\<open>Ref = v2\<close> in the variable map: the module URL is pinned to the
  override, the template URL keeps \<^verbatim>\<open>v1\<close>. \<^verbatim>\<open>rewriteTemplateURL\<close> has no variable map.
\<close>

theorem template_resolution_differs:
  "parseModuleURL exampleCollaborators exampleOptions [refVar \<mapsto> GString ''v2'']
       ''git::https://example.com/org/repo.git//modules/foo?ref=v1''
     = Inr ''git::https://example.com/org/repo.git//modules/foo?ref=v2''
   \<and> resolveTemplateURL exampleCollaborators
       ''git::https://example.com/org/repo.git//modules/foo?ref=v1'' ''/tmp/scaffold1''
     = Inr ''git::https://example.com/org/repo.git//modules/foo?ref=v1''
   \<and> parseModuleURL exampleCollaborators exampleOptions [refVar \<mapsto> GString ''v2'']
       ''git::https://example.com/org/repo.git//modules/foo?ref=v1''
     \<noteq> resolveTemplateURL exampleCollaborators
         ''git::https://example.com/org/repo.git//modules/foo?ref=v1'' ''/tmp/scaffold1''"
  by (simp add: exampleCollaborators_def exampleOptions_def exampleSource_def parseModuleURL_def
        resolveTemplateURL_def rewriteModuleURL_def parseURL_def matchRest_def newURL_def
        sourceURLTypeVar_def sourceURLTypeHTTPS_def sourceURLTypeGit_def
        sourceGitSSHUserVar_def sourceGitSSHUser_def TrimPrefix_def eval_defs)

lemma rewriteTemplateURL_addRef:
  "vars refVar = None \<Longrightarrow> rewriteTemplateURL S G h p = addRefToModuleURL S G h p vars"
  by (simp add: addRefToModuleURL_def rewriteTemplateURL_def Let_def)

lemma rewriteModuleURL_unrequested:
  assumes "\<not> (\<exists>v. vars sourceURLTypeVar = Some v \<and> sprintf_s v = ''git-ssh'')"
  shows "rewriteModuleURL T wd vars m = map_sum ErrorsNew id (T m wd)"
  using assms
  by (auto simp: rewriteModuleURL_def Let_def sourceURLTypeGit_def sourceURLTypeHTTPS_def
        split: sum.splits option.splits)

text \<open>
  C5, amended. \<^verbatim>\<open>rewriteTemplateURL\<close> is \<^verbatim>\<open>addRefToModuleURL\<close> run with a variable map that
  has no \<^verbatim>\<open>Ref\<close>: the template URL is pinned by the tag lookup only, and no transport
  rewrite is applied to it. The two resolutions return the same string when the variable
  map has no \<^verbatim>\<open>Ref\<close> and does not select \<^verbatim>\<open>git-ssh\<close>, the source normalises alike relative
  to the working directory and to the download directory, and normalising the text of the
  normalised URL gives that URL back.
\<close>

theorem template_resolution_agreement:
  assumes noRef: "vars refVar = None"
      and noSSH: "\<not> (\<exists>v. vars sourceURLTypeVar = Some v \<and> sprintf_s v = ''git-ssh'')"
      and dirs: "ToSourceURL c url (WorkingDir opts) = ToSourceURL c url tempDir"
      and stable: "\<forall>u. ToSourceURL c url tempDir = Inr u
                      \<longrightarrow> ToSourceURL c (URLString c u) (WorkingDir opts) = Inr u"
  shows "rewriteTemplateURL S G h p = addRefToModuleURL S G h p vars
       \<and> resolveTemplateURL c url tempDir = parseModuleURL c opts vars url"
proof
  show "rewriteTemplateURL S G h p = addRefToModuleURL S G h p vars"
    using rewriteTemplateURL_addRef [where vars = vars] noRef by simp
next
  show "resolveTemplateURL c url tempDir = parseModuleURL c opts vars url"
  proof (cases "ToSourceURL c url tempDir")
    case (Inl err)
    then show ?thesis
      using dirs by (simp add: resolveTemplateURL_def parseModuleURL_def)
  next
    case (Inr u)
    with stable have again: "ToSourceURL c (URLString c u) (WorkingDir opts) = Inr u"
      by blast
    have rw: "rewriteModuleURL (ToSourceURL c) (WorkingDir opts) vars (URLString c u) = Inr u"
      using rewriteModuleURL_unrequested [where vars = vars, of "ToSourceURL c" "WorkingDir opts"
          "URLString c u"] noSSH again
      by simp
    show ?thesis
      using Inr dirs rw rewriteTemplateURL_addRef [where vars = vars] noRef
      by (simp add: resolveTemplateURL_def parseModuleURL_def)
  qed
qed

theorem template_resolution_agreement_witness:
  "resolveTemplateURL exampleCollaborators exampleSource ''/tmp/scaffold1''
     = Inr ''git::https://example.com/org/repo.git//modules/foo?ref=v1.2.0''
   \<and> parseModuleURL exampleCollaborators exampleOptions Map.empty exampleSource
     = Inr ''git::https://example.com/org/repo.git//modules/foo?ref=v1.2.0''"
proof -
  have run: "resolveTemplateURL exampleCollaborators exampleSource ''/tmp/scaffold1''
     = Inr ''git::https://example.com/org/repo.git//modules/foo?ref=v1.2.0''"
    by (simp add: exampleCollaborators_def exampleOptions_def exampleSource_def parseModuleURL_def
          resolveTemplateURL_def rewriteModuleURL_def parseURL_def matchRest_def newURL_def
          sourceURLTypeVar_def sourceURLTypeHTTPS_def sourceURLTypeGit_def
          sourceGitSSHUserVar_def sourceGitSSHUser_def TrimPrefix_def eval_defs)
  have stable: "\<forall>u. ToSourceURL exampleCollaborators exampleSource ''/tmp/scaffold1'' = Inr u
      \<longrightarrow> ToSourceURL exampleCollaborators (URLString exampleCollaborators u)
            (WorkingDir exampleOptions) = Inr u"
    by (simp add: exampleCollaborators_def exampleOptions_def exampleSource_def parseModuleURL_def
          resolveTemplateURL_def rewriteModuleURL_def parseURL_def matchRest_def newURL_def
          sourceURLTypeVar_def sourceURLTypeHTTPS_def sourceURLTypeGit_def
          sourceGitSSHUserVar_def sourceGitSSHUser_def TrimPrefix_def eval_defs)
  have dirs: "ToSourceURL exampleCollaborators exampleSource (WorkingDir exampleOptions)
      = ToSourceURL exampleCollaborators exampleSource ''/tmp/scaffold1''"
    by (simp add: exampleCollaborators_def exampleOptions_def exampleSource_def parseModuleURL_def
          resolveTemplateURL_def rewriteModuleURL_def parseURL_def matchRest_def newURL_def
          sourceURLTypeVar_def sourceURLTypeHTTPS_def sourceURLTypeGit_def
          sourceGitSSHUserVar_def sourceGitSSHUser_def TrimPrefix_def eval_defs)
  have noSSH: "\<not> (\<exists>v. (Map.empty :: vars) sourceURLTypeVar = Some v \<and> sprintf_s v = ''git-ssh'')"
    by simp
  have noRef: "(Map.empty :: vars) refVar = None"
    by simp
  from template_resolution_agreement
    [where vars = "Map.empty" and c = exampleCollaborators and opts = exampleOptions
       and url = exampleSource and tempDir = "''/tmp/scaffold1''"]
    noRef noSSH dirs stable run
  show ?thesis by simp
qed

section \<open>C6: a failed tag lookup\<close>

text \<open>
  C6. No override is passed and the URL has no \<^verbatim>\<open>ref\<close> value, so the lookup is made: the
  root of the URL is \<open>root\<close> and \<^verbatim>\<open>GitLastReleaseTag\<close> answers it with an error or with
  an empty tag. Then \<^verbatim>\<open>addRefToModuleURL\<close> and \<^verbatim>\<open>rewriteTemplateURL\<close> both return the
  pointer they were given, with no error, and leave the store as it was. Moreover, on any
  input, an error that one of the two functions returns is the error of
  \<^verbatim>\<open>SplitSourceURL\<close>, wrapped: no answer of the tag lookup becomes an error.
\<close>

theorem lookup_failure_is_soft:
  "(vars refVar = None \<and> Values_Get (Query (h p)) refParam = [] \<and> S (h p) = Inr root
      \<and> G root = (tag, err) \<and> (err \<noteq> None \<or> tag = [])
      \<longrightarrow> addRefToModuleURL S G h p vars = (Inr p, h)
          \<and> rewriteTemplateURL S G h p = (Inr p, h))
   \<and> (\<forall>e h'. addRefToModuleURL S G h p vars = (Inl e, h')
         \<longrightarrow> (\<exists>e'. S (h' p) = Inl e' \<and> e = ErrorsNew e'))
   \<and> (\<forall>e h'. rewriteTemplateURL S G h p = (Inl e, h')
         \<longrightarrow> (\<exists>e'. S (h p) = Inl e' \<and> e = ErrorsNew e'))"
  by (auto simp: addRefToModuleURL_def rewriteTemplateURL_def Let_def
      split: option.splits sum.splits prod.splits if_splits)

theorem lookup_failure_is_soft_witness:
  "addRefToModuleURL splitRoot tagLookupFails (oneURL (exampleURL [])) 0 Map.empty
     = (Inr 0, oneURL (exampleURL []))
   \<and> rewriteTemplateURL splitRoot tagLookupFails (oneURL (exampleURL [])) 0
     = (Inr 0, oneURL (exampleURL []))"
  using lookup_failure_is_soft
    [where vars = Map.empty and h = "oneURL (exampleURL [])" and p = 0 and S = splitRoot
       and root = "(exampleURL [])\<lparr>Path := ''/org/repo.git''\<rparr>" and G = tagLookupFails
       and tag = "[]" and err = "Some (External ''git ls-remote failed'')"]
  by (simp add: eval_defs tagLookupFails_def)

section \<open>C7: the transport rewrite\<close>

text \<open>
  C7. \<^verbatim>\<open>rewriteModuleURL\<close> normalises the string \<^verbatim>\<open>user@host:path\<close> exactly when the pattern
  matches with the scheme \<^verbatim>\<open>https\<close> and the variable \<^verbatim>\<open>SourceUrlType\<close> is present and renders
  as \<^verbatim>\<open>git-ssh\<close>; the user is \<^verbatim>\<open>SourceGitSshUser\<close> or \<^verbatim>\<open>git\<close>. In every other case (the
  pattern does not match, another scheme, the variable absent or with another value) it
  normalises the string it was given, unchanged, so the URL it returns is the one the
  unmodified text stands for, scheme included.
\<close>

theorem transport_rewrite_guard:
  fixes T :: "string \<Rightarrow> string \<Rightarrow> error + URL"
  shows "(\<not> ((\<exists>p. parseURL m = Inr p \<and> scheme p = ''https'')
              \<and> (\<exists>v. vars sourceURLTypeVar = Some v \<and> sprintf_s v = ''git-ssh''))
            \<longrightarrow> rewriteModuleURL T wd vars m = map_sum ErrorsNew id (T m wd))
       \<and> (\<forall>p. parseURL m = Inr p \<and> scheme p = ''https''
              \<and> (\<exists>v. vars sourceURLTypeVar = Some v \<and> sprintf_s v = ''git-ssh'')
            \<longrightarrow> rewriteModuleURL T wd vars m =
                  map_sum ErrorsNew id
                    (T ((case vars sourceGitSSHUserVar of
                           Some v \<Rightarrow> sprintf_s v
                         | None \<Rightarrow> ''git'')
                          @ ''@'' @ host p @ '':'' @ TrimPrefix (path p) ''/'') wd))"
  by (auto simp: rewriteModuleURL_def Let_def sourceURLTypeGit_def sourceURLTypeHTTPS_def
        sourceGitSSHUser_def split: sum.splits option.splits)

text \<open>An https source with \<^verbatim>\<open>git-ssh\<close> requested is rebuilt; the same source with no
  request, and an ssh source with the request, are handed on as they are.\<close>

theorem transport_rewrite_guard_witness:
  "rewriteModuleURL echoSource ''/work'' [sourceURLTypeVar \<mapsto> GString ''git-ssh'']
       ''git::https://example.com/org/repo.git//modules/foo''
     = Inl (ErrorsNew (External ''git@example.com:org/repo.git//modules/foo''))
   \<and> rewriteModuleURL echoSource ''/work'' Map.empty
       ''git::https://example.com/org/repo.git//modules/foo''
     = Inl (ErrorsNew (External ''git::https://example.com/org/repo.git//modules/foo''))
   \<and> rewriteModuleURL echoSource ''/work'' [sourceURLTypeVar \<mapsto> GString ''git-ssh'']
       ''git::ssh://git@example.com/org/repo.git''
     = Inl (ErrorsNew (External ''git::ssh://git@example.com/org/repo.git''))"
  using transport_rewrite_guard
      [of "''git::https://example.com/org/repo.git//modules/foo''"
          "[sourceURLTypeVar \<mapsto> GString ''git-ssh'']" echoSource "''/work''"]
    transport_rewrite_guard
      [of "''git::https://example.com/org/repo.git//modules/foo''" Map.empty
          echoSource "''/work''"]
    transport_rewrite_guard
      [of "''git::ssh://git@example.com/org/repo.git''"
          "[sourceURLTypeVar \<mapsto> GString ''git-ssh'']" echoSource "''/work''"]
  by (simp add: rewriteModuleURL_def parseURL_def matchRest_def sourceURLTypeVar_def
        sourceURLTypeHTTPS_def sourceURLTypeGit_def sourceGitSSHUserVar_def
        sourceGitSSHUser_def TrimPrefix_def echoSource_def)

section \<open>C8: one value under ref\<close>

text \<open>
  C8. The claim is that the returned URL never has two values under \<^verbatim>\<open>ref\<close>. With the
  override present and empty, \<^verbatim>\<open>Set\<close> writes \<^verbatim>\<open>ref=\<close>, \<^verbatim>\<open>Get\<close> reads the empty string, the
  lookup is made and \<^verbatim>\<open>Add\<close> appends the tag: the query is \<^verbatim>\<open>ref=&ref=v1\<close>, two values.
  The same happens with no override on a URL that carries \<^verbatim>\<open>ref=\<close>. Both inputs have at
  most one value per key.
\<close>

theorem duplicate_ref_after_empty_override:
  "addRefToModuleURL splitRoot (tagFound ''v1'') (oneURL (exampleURL [])) 0
       [refVar \<mapsto> GString []]
     = (Inr 0, (oneURL (exampleURL []))(0 := exampleURL ''ref=&ref=v1''))
   \<and> Values_of (Query (exampleURL ''ref=&ref=v1'')) refParam = [[], ''v1'']
   \<and> addRefToModuleURL splitRoot (tagFound ''v1'') (oneURL (exampleURL ''ref='')) 0 Map.empty
     = (Inr 0, (oneURL (exampleURL ''ref=''))(0 := exampleURL ''ref=&ref=v1''))"
  by (simp add: eval_defs)

theorem duplicate_ref_after_empty_override_witness:
  "length (Values_of (Query (exampleURL ''ref=&ref=v1'')) refParam) = 2
   \<and> fst (addRefToModuleURL splitRoot (tagFound ''v1'') (oneURL (exampleURL [])) 0
            [refVar \<mapsto> GString []]) = Inr 0"
  using duplicate_ref_after_empty_override by simp

section \<open>C9: only RawQuery is written\<close>

lemma addRef_frame:
  "addRefToModuleURL S G h p vars = (r, h') \<Longrightarrow>
     h' = h(p := (h p)\<lparr>RawQuery := RawQuery (h' p)\<rparr>) \<and> (\<forall>p'. r = Inr p' \<longrightarrow> p' = p)"
  by (auto simp: addRefToModuleURL_def Let_def
      split: option.splits sum.splits prod.splits if_splits)

lemma rewriteTemplate_frame:
  "rewriteTemplateURL S G h p = (r, h') \<Longrightarrow>
     h' = h(p := (h p)\<lparr>RawQuery := RawQuery (h' p)\<rparr>) \<and> (\<forall>p'. r = Inr p' \<longrightarrow> p' = p)"
  by (auto simp: rewriteTemplateURL_def Let_def
      split: option.splits sum.splits prod.splits if_splits)

text \<open>
  C9. After \<^verbatim>\<open>addRefToModuleURL\<close> and after \<^verbatim>\<open>rewriteTemplateURL\<close>, the store differs from
  the store before at most in the field \<^verbatim>\<open>RawQuery\<close> of the URL the pointer refers to:
  scheme, host, user, path and every other field of that URL, and every other URL, are as
  they were. A pointer that is returned is the pointer that was passed.
\<close>

theorem RawQuery_only:
  assumes "addRefToModuleURL S G h p vars = (r, h')"
      and "rewriteTemplateURL S G h p = (r2, h2)"
  shows "h' = h(p := (h p)\<lparr>RawQuery := RawQuery (h' p)\<rparr>)
       \<and> h2 = h(p := (h p)\<lparr>RawQuery := RawQuery (h2 p)\<rparr>)
       \<and> (\<forall>p'. r = Inr p' \<longrightarrow> p' = p) \<and> (\<forall>p'. r2 = Inr p' \<longrightarrow> p' = p)"
  using addRef_frame [OF assms(1)] rewriteTemplate_frame [OF assms(2)] by blast

theorem RawQuery_only_witness:
  "addRefToModuleURL splitRoot (tagFound ''v1'') (oneURL (exampleURL [])) 0 Map.empty
     = (Inr 0, (oneURL (exampleURL []))(0 := exampleURL ''ref=v1''))
   \<and> rewriteTemplateURL splitRoot (tagFound ''v1'') (oneURL (exampleURL [])) 0
     = (Inr 0, (oneURL (exampleURL []))(0 := exampleURL ''ref=v1''))"
proof -
  have a: "addRefToModuleURL splitRoot (tagFound ''v1'') (oneURL (exampleURL [])) 0 Map.empty
     = (Inr 0, (oneURL (exampleURL []))(0 := exampleURL ''ref=v1''))"
    by (simp add: eval_defs)
  have b: "rewriteTemplateURL splitRoot (tagFound ''v1'') (oneURL (exampleURL [])) 0
     = (Inr 0, (oneURL (exampleURL []))(0 := exampleURL ''ref=v1''))"
    by (simp add: eval_defs)
  from RawQuery_only [OF a b] a b show ?thesis by simp
qed

section \<open>C10: GetExitCode\<close>

lemma multiErrLoop_find:
  "multiErrLoop errs =
     map_option (\<lambda>e. fst (GetExitCode (Some e)))
       (find (\<lambda>e. snd (GetExitCode (Some e)) = None) errs)"
  by (induction errs) (auto split: prod.splits)

lemma GetExitCode_error_zero:
  "snd (GetExitCode x) \<noteq> None \<longrightarrow> fst (GetExitCode x) = 0"
  "True \<or> multiErrLoop errs = None"
  by (induction x and errs rule: GetExitCode_multiErrLoop.induct)
     (auto split: option.splits prod.splits)

text \<open>
  C10 fails as stated. An error that wraps a \<^verbatim>\<open>ProcessExecutionError\<close> whose \<^verbatim>\<open>Err\<close>
  holds no exit status: no
  exit status can be recovered, and \<^verbatim>\<open>GetExitCode\<close> returns 0 with the innermost error,
  which is what \<^verbatim>\<open>ExitStatus()\<close> returned, not with the error it was given.
\<close>

theorem GetExitCode_unrecovered_not_input:
  "GetExitCode (Some (Wrapped (ProcessExecutionError (Some (PlainError ''no status'')))))
     = (0, Some (PlainError ''no status''))
   \<and> GetExitCode (Some (Wrapped (ProcessExecutionError (Some (PlainError ''no status'')))))
     \<noteq> (0, Some (Wrapped (ProcessExecutionError (Some (PlainError ''no status'')))))"
  by simp

text \<open>
  C10, amended. For a non-nil error \<open>err\<close>:
  \<^item> when the error unwraps to an implementation of \<^verbatim>\<open>ExitStatus()\<close>, \<^verbatim>\<open>GetExitCode\<close>
    returns what that method returns, which is \<^verbatim>\<open>GetExitCode\<close> of the field \<^verbatim>\<open>Err\<close> (so
    an error that comes back is the inner one);
  \<^item> otherwise an \<^verbatim>\<open>exec.ExitError\<close> found by \<^verbatim>\<open>errors.As\<close> gives its status with a nil
    error;
  \<^item> otherwise a multierror gives the code of its first member for which \<^verbatim>\<open>GetExitCode\<close>
    returns a nil error, with a nil error, and 0 with the error itself when there is no
    such member;
  \<^item> otherwise the result is 0 with the error itself.
  When the error does not unwrap to an implementation of \<^verbatim>\<open>ExitStatus()\<close>, the result is
  0 with the unmodified error exactly when the returned error is not nil. In every case a
  returned error comes with the code 0. A nil error gives 0 and nil.
\<close>

theorem GetExitCode_result:
  "(\<forall>inner. Unwrap_iErrorCode err = Some inner
       \<longrightarrow> GetExitCode (Some err) = GetExitCode inner)
   \<and> (Unwrap_iErrorCode err = None \<longrightarrow>
        (\<forall>status. as_ExitError err = Some status \<longrightarrow> GetExitCode (Some err) = (status, None))
      \<and> (\<forall>errs. as_ExitError err = None \<and> as_MultiError err = Some errs \<longrightarrow>
            GetExitCode (Some err) =
              (case find (\<lambda>e. snd (GetExitCode (Some e)) = None) errs of
                 Some e \<Rightarrow> (fst (GetExitCode (Some e)), None)
               | None \<Rightarrow> (0, Some err)))
      \<and> (as_ExitError err = None \<and> as_MultiError err = None \<longrightarrow>
            GetExitCode (Some err) = (0, Some err))
      \<and> (GetExitCode (Some err) = (0, Some err) \<longleftrightarrow> snd (GetExitCode (Some err)) \<noteq> None))
   \<and> (snd (GetExitCode (Some err)) \<noteq> None \<longrightarrow> fst (GetExitCode (Some err)) = 0)
   \<and> GetExitCode None = (0, None)"
proof -
  have deleg: "GetExitCode (Some err) = GetExitCode inner"
    if "Unwrap_iErrorCode err = Some inner" for inner
    using that by simp
  have exit: "GetExitCode (Some err) = (status, None)"
    if "Unwrap_iErrorCode err = None" "as_ExitError err = Some status" for status
    using that by simp
  have multi: "GetExitCode (Some err) =
              (case find (\<lambda>e. snd (GetExitCode (Some e)) = None) errs of
                 Some e \<Rightarrow> (fst (GetExitCode (Some e)), None)
               | None \<Rightarrow> (0, Some err))"
    if "Unwrap_iErrorCode err = None" "as_ExitError err = None" "as_MultiError err = Some errs"
    for errs
    using that by (simp add: multiErrLoop_find split: option.splits)
  have none: "GetExitCode (Some err) = (0, Some err)"
    if "Unwrap_iErrorCode err = None" "as_ExitError err = None" "as_MultiError err = None"
    using that by simp
  have iff: "GetExitCode (Some err) = (0, Some err) \<longleftrightarrow> snd (GetExitCode (Some err)) \<noteq> None"
    if "Unwrap_iErrorCode err = None"
    using that by (auto split: option.splits)
  have nil: "GetExitCode None = (0, None)"
    by simp
  from deleg exit multi none iff nil GetExitCode_error_zero(1) [of "Some err"]
  show ?thesis by blast
qed

theorem GetExitCode_result_witness:
  "GetExitCode (Some (Wrapped (ProcessExecutionError (Some (ExitError 3))))) = (3, None)
   \<and> GetExitCode (Some (Wrapped (ExitError 2))) = (2, None)
   \<and> GetExitCode (Some (MultiError [PlainError ''a'',
         Wrapped (ProcessExecutionError (Some (ExitError 3))), PlainError ''b''])) = (3, None)
   \<and> GetExitCode (Some (PlainError ''a'')) = (0, Some (PlainError ''a''))"
  using GetExitCode_result [of "Wrapped (ProcessExecutionError (Some (ExitError 3)))"]
    GetExitCode_result [of "Wrapped (ExitError 2)"]
    GetExitCode_result [of "MultiError [PlainError ''a'',
         Wrapped (ProcessExecutionError (Some (ExitError 3))), PlainError ''b'']"]
    GetExitCode_result [of "PlainError ''a''"]
  by simp

end
